theory Spec2Isabelle
  imports Complex_Main "HOL-Library.Sublist"
begin

section \<open>JavaScript values\<close>

text \<open>
  The client code types the platform's data as \<^verbatim>\<open>any\<close>, so the values it reads are
  modelled dynamically. A Number is NaN, an infinity, or a finite value given by its exact
  rational value (the sign of zero is not kept: no operation of this program tells
  \<^verbatim>\<open>-0\<close> from \<^verbatim>\<open>0\<close>). A string is the list of its UTF-8 bytes.
\<close>

datatype js_number = NaN | PosInfinity | NegInfinity | Finite rat

datatype jsval =
    JUndefined
  | JNull
  | JBool bool
  | JNum js_number
  | JStr string
  | JArr "jsval list"
  | JObj "(string \<times> jsval) list"

text \<open>What a \<^verbatim>\<open>throw\<close> or a rejected promise carries.\<close>

datatype js_error = TypeError | RangeError | Thrown jsval

text \<open>
  Property read \<^verbatim>\<open>v.k\<close> for the property names this program reads (\<^verbatim>\<open>id\<close>,
  \<^verbatim>\<open>title\<close>, \<^verbatim>\<open>description\<close>, \<^verbatim>\<open>handle\<close>, \<^verbatim>\<open>images\<close>, \<^verbatim>\<open>variants\<close>,
  \<^verbatim>\<open>src\<close>, \<^verbatim>\<open>price\<close>, \<^verbatim>\<open>amount\<close>, \<^verbatim>\<open>domain\<close>, \<^verbatim>\<open>storefrontAccessToken\<close>,
  \<^verbatim>\<open>webUrl\<close>): none of them is a built-in property of a primitive or of an array, so
  only an object can hold one. Reading a property of \<^verbatim>\<open>undefined\<close> or \<^verbatim>\<open>null\<close> throws.
\<close>

fun get :: "jsval \<Rightarrow> string \<Rightarrow> js_error + jsval" where
  "get JUndefined k = Inl TypeError"
| "get JNull k = Inl TypeError"
| "get (JObj fs) k = Inr (case map_of fs k of None \<Rightarrow> JUndefined | Some v \<Rightarrow> v)"
| "get v k = Inr JUndefined"

text \<open>ToBoolean.\<close>

fun truthy :: "jsval \<Rightarrow> bool" where
  "truthy JUndefined = False"
| "truthy JNull = False"
| "truthy (JBool b) = b"
| "truthy (JNum n) = (n \<noteq> NaN \<and> n \<noteq> Finite 0)"
| "truthy (JStr s) = (s \<noteq> [])"
| "truthy (JArr xs) = True"
| "truthy (JObj fs) = True"

text \<open>
  \<^verbatim>\<open>s.replace(pat, rep)\<close> with a string pattern: the first occurrence of \<^verbatim>\<open>pat\<close> in
  \<^verbatim>\<open>s\<close> is replaced, wherever it is (\<^verbatim>\<open>rep\<close> holds no \<^verbatim>\<open>$\<close> pattern here).
\<close>

fun replace :: "string \<Rightarrow> string \<Rightarrow> string \<Rightarrow> string" where
  "replace [] pat rep = (if pat = [] then rep else [])"
| "replace (c # cs) pat rep =
     (if take (length pat) (c # cs) = pat then rep @ drop (length pat) (c # cs)
      else c # replace cs pat rep)"

text \<open>The method call \<^verbatim>\<open>v.replace(pat, rep)\<close>: only a string has the method.\<close>

fun call_replace :: "jsval \<Rightarrow> string \<Rightarrow> string \<Rightarrow> js_error + string" where
  "call_replace (JStr s) pat rep = Inr (replace s pat rep)"
| "call_replace v pat rep = Inl TypeError"

text \<open>\<^verbatim>\<open>xs.map(f)\<close> where \<^verbatim>\<open>f\<close> may throw: the first throw ends the loop.\<close>

fun traverse :: "('a \<Rightarrow> js_error + 'b) \<Rightarrow> 'a list \<Rightarrow> js_error + 'b list" where
  "traverse f [] = Inr []"
| "traverse f (x # xs) =
     (case f x of
        Inl e \<Rightarrow> Inl e
      | Inr y \<Rightarrow> (case traverse f xs of Inl e \<Rightarrow> Inl e | Inr ys \<Rightarrow> Inr (y # ys)))"

text \<open>The method call \<^verbatim>\<open>v.map(f)\<close>: only an array has the method.\<close>

fun call_map :: "jsval \<Rightarrow> (jsval \<Rightarrow> js_error + 'b) \<Rightarrow> js_error + 'b list" where
  "call_map (JArr xs) f = traverse f xs"
| "call_map v f = Inl TypeError"

section \<open>Numbers and strings of the JavaScript runtime\<close>

text \<open>
  \<open>formatPrice\<close> calls \<^verbatim>\<open>String\<close>, \<^verbatim>\<open>parseFloat\<close> and \<^verbatim>\<open>toFixed\<close>. They are
  modelled after ECMA-262 with exact rational arithmetic: a finite Number is the rational
  value of a binary64 float, and rounding to binary64 is computed, not assumed.
\<close>

definition pow2 :: "int \<Rightarrow> rat" where
  "pow2 e = (if 0 \<le> e then 2 ^ nat e else 1 / 2 ^ nat (- e))"

definition pow10 :: "int \<Rightarrow> rat" where
  "pow10 e = (if 0 \<le> e then 10 ^ nat e else 1 / 10 ^ nat (- e))"

text \<open>The number of binary digits and of decimal digits of a positive integer.\<close>

function bitlen :: "int \<Rightarrow> int" where
  "bitlen n = (if n \<le> 0 then 0 else 1 + bitlen (n div 2))"
  by pat_completeness auto
termination
  by (relation "measure nat") auto

declare bitlen.simps [simp del]

function declen :: "int \<Rightarrow> int" where
  "declen n = (if n < 10 then 1 else 1 + declen (n div 10))"
  by pat_completeness auto
termination
  by (relation "measure nat") auto

declare declen.simps [simp del]

text \<open>For \<open>a > 0\<close>: the integer \<open>e\<close> with \<open>2 ^ e \<le> a < 2 ^ (e + 1)\<close>, and the same to base 10.\<close>

definition ilog2 :: "rat \<Rightarrow> int" where
  "ilog2 a = (if 1 \<le> a then bitlen \<lfloor>a\<rfloor> - 1 else - bitlen (\<lceil>1 / a\<rceil> - 1))"

definition ilog10 :: "rat \<Rightarrow> int" where
  "ilog10 a = (if 1 \<le> a then declen \<lfloor>a\<rfloor> - 1 else - declen (\<lceil>1 / a\<rceil> - 1))"

text \<open>
  The Number value for a real \<open>x\<close>: the nearest binary64 value (53 significant bits,
  least exponent \<open>- 1022\<close>, so the subnormal spacing is \<open>2 ^ - 1074\<close>), a tie going to
  the even significand, and an infinity from \<open>2 ^ 1024\<close> on.
\<close>

definition round_half_even :: "rat \<Rightarrow> int" where
  "round_half_even q =
     (let f = \<lfloor>q\<rfloor>; r = q - of_int f in
      if r < 1 / 2 then f else if 1 / 2 < r then f + 1 else if even f then f else f + 1)"

definition to_double :: "rat \<Rightarrow> js_number" where
  "to_double x =
     (if x = 0 then Finite 0
      else
        let a = \<bar>x\<bar>;
            e = max (ilog2 a) (- 1022);
            ulp = pow2 (e - 52);
            m = of_int (round_half_even (a / ulp)) * ulp
        in if pow2 1024 \<le> m then (if x < 0 then NegInfinity else PosInfinity)
           else Finite (if x < 0 then - m else m))"

text \<open>Decimal digits: of an integer \<open>n \<ge> 0\<close>, and the value of a digit string.\<close>

definition digit_char :: "int \<Rightarrow> char" where
  "digit_char d = ''0123456789'' ! nat d"

function digits :: "int \<Rightarrow> string" where
  "digits n = (if n < 10 then [digit_char n] else digits (n div 10) @ [digit_char (n mod 10)])"
  by pat_completeness auto
termination
  by (relation "measure nat") auto

declare digits.simps [simp del]

definition is_digit :: "char \<Rightarrow> bool" where
  "is_digit c = (c \<in> set ''0123456789'')"

definition digit_val :: "char \<Rightarrow> int" where
  "digit_val c = of_char c - 48"

definition digits_val :: "string \<Rightarrow> int" where
  "digits_val ds = foldl (\<lambda>a c. 10 * a + digit_val c) 0 ds"

text \<open>
  \<^verbatim>\<open>Number::toString\<close>, radix 10. For \<open>x > 0\<close> the digits \<open>s\<close> and the exponent \<open>n\<close>
  are those with the fewest digits such that \<open>s \<times> 10 ^ (n - k)\<close> rounds to \<open>x\<close>; among
  several, the one closest to \<open>x\<close> (the choice the standard recommends). \<open>shortest\<close>
  tries \<open>k = 1, 2, \<dots>\<close> digits; 17 always suffice for a binary64 value.
\<close>

function strip_zeros :: "int \<Rightarrow> int" where
  "strip_zeros s = (if s \<le> 0 \<or> s mod 10 \<noteq> 0 then s else strip_zeros (s div 10))"
  by pat_completeness auto
termination
  by (relation "measure nat") auto

declare strip_zeros.simps [simp del]

definition round_trips :: "rat \<Rightarrow> rat \<Rightarrow> bool" where
  "round_trips x v = (to_double v = Finite x)"

fun shortest :: "nat \<Rightarrow> rat \<Rightarrow> int \<Rightarrow> int \<times> int" where
  "shortest fuel x k =
     (let n0 = ilog10 x + 1;
          scale = pow10 (n0 - k);
          lo = \<lfloor>x / scale\<rfloor>;
          hi = lo + 1;
          dlo = x - of_int lo * scale;
          dhi = of_int hi * scale - x;
          near = (if dlo < dhi then lo else if dhi < dlo then hi else if even lo then lo else hi);
          far = (if near = lo then hi else lo);
          pick = (\<lambda>s. (strip_zeros s, declen s + n0 - k))
      in if round_trips x (of_int near * scale) then pick near
         else if round_trips x (of_int far * scale) then pick far
         else (case fuel of 0 \<Rightarrow> pick near | Suc fuel' \<Rightarrow> shortest fuel' x (k + 1)))"

declare shortest.simps [simp del]

definition positive_to_string :: "rat \<Rightarrow> string" where
  "positive_to_string x =
     (case shortest 16 x 1 of (s, n) \<Rightarrow>
        let ds = digits s; k = int (length ds) in
        if - 5 \<le> n \<and> n \<le> 21 then
          (if k \<le> n then ds @ replicate (nat (n - k)) (CHR ''0'')
           else if 0 < n then take (nat n) ds @ ''.'' @ drop (nat n) ds
           else ''0.'' @ replicate (nat (- n)) (CHR ''0'') @ ds)
        else
          (let e = n - 1;
               ex = (if e < 0 then ''-'' else ''+'') @ digits \<bar>e\<bar>
           in if k = 1 then ds @ ''e'' @ ex
              else take 1 ds @ ''.'' @ drop 1 ds @ ''e'' @ ex))"

fun number_to_string :: "js_number \<Rightarrow> string" where
  "number_to_string NaN = ''NaN''"
| "number_to_string PosInfinity = ''Infinity''"
| "number_to_string NegInfinity = ''-Infinity''"
| "number_to_string (Finite x) =
     (if x = 0 then ''0''
      else if x < 0 then ''-'' @ positive_to_string (- x)
      else positive_to_string x)"

text \<open>
  \<^verbatim>\<open>String(v)\<close>. An array is joined with commas, \<^verbatim>\<open>undefined\<close> and \<^verbatim>\<open>null\<close>
  elements giving the empty string, and the first element that cannot be converted
  throws. An object is a plain one: it inherits \<^verbatim>\<open>Object.prototype.toString\<close>, which
  gives \<^verbatim>\<open>[object Object]\<close>, unless it has a \<^verbatim>\<open>toString\<close> property of its own. No
  value of the model is callable, so with such a property the conversion finds no method
  that returns a primitive (the inherited \<^verbatim>\<open>valueOf\<close> returns the object itself) and
  throws a TypeError.
\<close>

fun join :: "string \<Rightarrow> string list \<Rightarrow> string" where
  "join sep [] = []"
| "join sep [x] = x"
| "join sep (x # y # ys) = x @ sep @ join sep (y # ys)"

fun to_String :: "jsval \<Rightarrow> js_error + string" where
  "to_String JUndefined = Inr ''undefined''"
| "to_String JNull = Inr ''null''"
| "to_String (JBool b) = Inr (if b then ''true'' else ''false'')"
| "to_String (JNum n) = Inr (number_to_string n)"
| "to_String (JStr s) = Inr s"
| "to_String (JArr xs) =
     (case traverse (\<lambda>r. r)
             (map (\<lambda>x. case x of JUndefined \<Rightarrow> Inr [] | JNull \<Rightarrow> Inr [] | _ \<Rightarrow> to_String x) xs) of
        Inl e \<Rightarrow> Inl e
      | Inr ss \<Rightarrow> Inr (join '','' ss))"
| "to_String (JObj fs) =
     (case map_of fs ''toString'' of
        None \<Rightarrow> Inr ''[object Object]''
      | Some m \<Rightarrow> Inl TypeError)"

text \<open>
  \<^verbatim>\<open>parseFloat\<close>: leading white space is dropped, the longest prefix that is a
  \<^verbatim>\<open>StrDecimalLiteral\<close> (an optional sign, then \<^verbatim>\<open>Infinity\<close> or
  digits with an optional fraction and exponent) is read, and its value is rounded to a
  Number; with no such prefix the result is NaN.

  White space is the characters of \<^verbatim>\<open>WhiteSpace\<close> and \<^verbatim>\<open>LineTerminator\<close>, here in
  UTF-8: U+0009 to U+000D, U+0020, U+00A0, U+1680, U+2000 to U+200A, U+2028, U+2029,
  U+202F, U+205F, U+3000 and U+FEFF.
\<close>

definition white_space :: "string list" where
  "white_space =
     [[CHR 0x09], [CHR 0x0A], [CHR 0x0B], [CHR 0x0C], [CHR 0x0D], [CHR 0x20],
      [CHR 0xC2, CHR 0xA0],
      [CHR 0xE1, CHR 0x9A, CHR 0x80],
      [CHR 0xE2, CHR 0x80, CHR 0x80], [CHR 0xE2, CHR 0x80, CHR 0x81],
      [CHR 0xE2, CHR 0x80, CHR 0x82], [CHR 0xE2, CHR 0x80, CHR 0x83],
      [CHR 0xE2, CHR 0x80, CHR 0x84], [CHR 0xE2, CHR 0x80, CHR 0x85],
      [CHR 0xE2, CHR 0x80, CHR 0x86], [CHR 0xE2, CHR 0x80, CHR 0x87],
      [CHR 0xE2, CHR 0x80, CHR 0x88], [CHR 0xE2, CHR 0x80, CHR 0x89],
      [CHR 0xE2, CHR 0x80, CHR 0x8A],
      [CHR 0xE2, CHR 0x80, CHR 0xA8], [CHR 0xE2, CHR 0x80, CHR 0xA9],
      [CHR 0xE2, CHR 0x80, CHR 0xAF],
      [CHR 0xE2, CHR 0x81, CHR 0x9F],
      [CHR 0xE3, CHR 0x80, CHR 0x80],
      [CHR 0xEF, CHR 0xBB, CHR 0xBF]]"

function trim_start :: "string \<Rightarrow> string" where
  "trim_start s =
     (case find (\<lambda>t. prefix t s) white_space of
        None \<Rightarrow> s
      | Some t \<Rightarrow> trim_start (drop (length t) s))"
  by pat_completeness auto
termination
proof (relation "measure length")
  show "wf (measure length)"
    by simp
next
  fix s t
  assume "find (\<lambda>t. prefix t s) white_space = Some t"
  then have "t \<in> set white_space" and p: "prefix t s"
    by (auto simp: find_Some_iff)
  then have "t \<noteq> []"
    by (auto simp: white_space_def)
  with prefix_length_le [OF p] show "(drop (length t) s, s) \<in> measure length"
    by (cases t) auto
qed

declare trim_start.simps [simp del]

datatype numeric_literal = InfinityLiteral bool | DecimalLiteral bool string string int

definition exponent_part :: "string \<Rightarrow> int" where
  "exponent_part r =
     (case r of
        [] \<Rightarrow> 0
      | c # r' \<Rightarrow>
          if c = CHR ''e'' \<or> c = CHR ''E'' then
            (case r' of
               [] \<Rightarrow> 0
             | d # r'' \<Rightarrow>
                 if d = CHR ''+'' then
                   (if takeWhile is_digit r'' = [] then 0
                    else digits_val (takeWhile is_digit r''))
                 else if d = CHR ''-'' then
                   (if takeWhile is_digit r'' = [] then 0
                    else - digits_val (takeWhile is_digit r''))
                 else digits_val (takeWhile is_digit r'))
          else 0)"

definition str_decimal_prefix :: "string \<Rightarrow> numeric_literal option" where
  "str_decimal_prefix s =
     (let (neg, r) = (case s of
                        [] \<Rightarrow> (False, [])
                      | c # cs \<Rightarrow>
                          if c = CHR ''+'' then (False, cs)
                          else if c = CHR ''-'' then (True, cs)
                          else (False, s))
      in if prefix ''Infinity'' r then Some (InfinityLiteral neg)
         else
           let ip = takeWhile is_digit r;
               r1 = dropWhile is_digit r;
               (fp, r2) = (case r1 of
                             [] \<Rightarrow> ([], [])
                           | c # cs \<Rightarrow>
                               if c = CHR ''.''
                               then (takeWhile is_digit cs, dropWhile is_digit cs)
                               else ([], r1))
           in if ip = [] \<and> fp = [] then None
              else Some (DecimalLiteral neg ip fp (exponent_part r2)))"

fun literal_value :: "numeric_literal \<Rightarrow> js_number" where
  "literal_value (InfinityLiteral neg) = (if neg then NegInfinity else PosInfinity)"
| "literal_value (DecimalLiteral neg ip fp e) =
     (let mv = (of_int (digits_val ip) + of_int (digits_val fp) / 10 ^ length fp) * pow10 e
      in to_double (if neg then - mv else mv))"

definition parseFloat :: "string \<Rightarrow> js_number" where
  "parseFloat s =
     (case str_decimal_prefix (trim_start s) of
        None \<Rightarrow> NaN
      | Some l \<Rightarrow> literal_value l)"

text \<open>
  \<^verbatim>\<open>x.toFixed(fd)\<close>: a value that is not finite, or is at least \<open>10 ^ 21\<close>, is
  printed as \<^verbatim>\<open>String\<close> prints it; otherwise the integer \<open>n\<close> nearest to
  \<open>x \<times> 10 ^ fd\<close> (the larger one on a tie) is printed with \<open>fd\<close> decimals.
\<close>

definition toFixed :: "js_number \<Rightarrow> int \<Rightarrow> js_error + string" where
  "toFixed x fd =
     (if fd < 0 \<or> 100 < fd then Inl RangeError
      else
        (case x of
           Finite r \<Rightarrow>
             (let f = nat fd;
                  sgn = (if r < 0 then ''-'' else '''');
                  a = \<bar>r\<bar>
              in if 10 ^ 21 \<le> a then Inr (sgn @ number_to_string (Finite a))
                 else
                   let n = \<lfloor>a * 10 ^ f + 1 / 2\<rfloor>;
                       m = digits n;
                       m' = (if length m \<le> f
                             then replicate (f + 1 - length m) (CHR ''0'') @ m else m);
                       k = length m'
                   in Inr (sgn @ (if f = 0 then m
                                  else take (k - f) m' @ ''.'' @ drop (k - f) m')))
         | _ \<Rightarrow> Inr (number_to_string x)))"

section \<open>The client: data model (App.tsx)\<close>

text \<open>
  \<^verbatim>\<open>interface ShopifyVariant\<close> and \<^verbatim>\<open>interface Product\<close>. The fields copied from a raw
  record keep whatever value the platform gave (the interfaces are not checked at run
  time).
\<close>

record ShopifyVariant =
  v_id :: jsval
  v_price :: jsval
  v_title :: jsval

record Product =
  p_id :: jsval
  p_title :: jsval
  p_description :: jsval
  p_handle :: jsval
  p_images :: "jsval list"
  p_variants :: "ShopifyVariant list"

text \<open>The argument of \<^verbatim>\<open>Client.buildClient\<close> and a line item of a checkout.\<close>

record ClientConfig =
  domain :: string
  storefrontAccessToken :: jsval
  apiVersion :: string

record LineItem =
  variantId :: string
  quantity :: int

text \<open>
  The platform's client handle, an opaque collaborator: what each of its operations
  resolves to (\<open>Inr\<close>) or rejects with (\<open>Inl\<close>).
\<close>

record Client =
  product_fetchAll :: "js_error + jsval"
  checkout_create :: "js_error + jsval"
  checkout_addLineItems :: "jsval \<Rightarrow> LineItem list \<Rightarrow> js_error + jsval"

text \<open>
  The browser environment: \<^verbatim>\<open>fetch(url)\<close> resolves to a response, whose \<^verbatim>\<open>json()\<close>
  resolves to a value, and either may reject; \<^verbatim>\<open>Client.buildClient\<close> returns a handle or
  throws.
\<close>

record env =
  fetch :: "string \<Rightarrow> js_error + (js_error + jsval)"
  buildClient :: "ClientConfig \<Rightarrow> js_error + Client"

text \<open>
  The component's state (the four \<^verbatim>\<open>useState\<close> cells) and the module variable
  \<^verbatim>\<open>client\<close>, \<open>None\<close> for \<^verbatim>\<open>null\<close>.
\<close>

record world =
  products :: "Product list"
  featured :: "Product list"
  loading :: bool
  configError :: bool
  client :: "Client option"

definition initial :: world where
  "initial = \<lparr>products = [], featured = [], loading = True, configError = False, client = None\<rparr>"

text \<open>
  The observable effects, in the order they happen. \<open>Await\<close> marks the point where an
  \<^verbatim>\<open>await\<close> hands control back to the event loop.
\<close>

datatype console_arg = LogText string | LogError js_error

datatype event =
    Fetch string
  | ResponseJson
  | BuildClient ClientConfig
  | ProductFetchAll
  | CheckoutCreate
  | CheckoutAddLineItems jsval "LineItem list"
  | Navigate jsval
  | Alert string
  | ConsoleError "console_arg list"
  | Await

text \<open>How a block ends: it runs to its end, executes \<^verbatim>\<open>return\<close>, or throws.\<close>

datatype completion = Normal | Return | Throw js_error

section \<open>formatPrice\<close>

text \<open>Lines 10-13. \<^verbatim>\<open>amount || 0\<close> replaces a falsy amount by the number 0.\<close>

definition formatPrice :: "jsval \<Rightarrow> js_error + string" where
  "formatPrice amount =
     (case to_String (if truthy amount then amount else JNum (Finite 0)) of
        Inl e \<Rightarrow> Inl e
      | Inr str \<Rightarrow>
          (case toFixed (parseFloat str) 2 of
             Inl e \<Rightarrow> Inl e
           | Inr s \<Rightarrow> Inr (''$'' @ s)))"

section \<open>The Catalog Bootstrapper (initializeAndLoad)\<close>

text \<open>Lines 65-69: one raw variant.\<close>

definition mapVariant :: "jsval \<Rightarrow> js_error + ShopifyVariant" where
  "mapVariant v =
     (case get v ''id'' of Inl e \<Rightarrow> Inl e | Inr i \<Rightarrow>
      case get v ''price'' of Inl e \<Rightarrow> Inl e | Inr p \<Rightarrow>
      case get v ''title'' of Inl e \<Rightarrow> Inl e | Inr t \<Rightarrow>
      Inr \<lparr>v_id = i, v_price = p, v_title = t\<rparr>)"

text \<open>Lines 59-70: one raw product.\<close>

definition mapProduct :: "jsval \<Rightarrow> js_error + Product" where
  "mapProduct p =
     (case get p ''id'' of Inl e \<Rightarrow> Inl e | Inr i \<Rightarrow>
      case get p ''title'' of Inl e \<Rightarrow> Inl e | Inr t \<Rightarrow>
      case get p ''description'' of Inl e \<Rightarrow> Inl e | Inr d \<Rightarrow>
      case get p ''handle'' of Inl e \<Rightarrow> Inl e | Inr h \<Rightarrow>
      case get p ''images'' of Inl e \<Rightarrow> Inl e | Inr imgs \<Rightarrow>
      case call_map imgs (\<lambda>i. get i ''src'') of Inl e \<Rightarrow> Inl e | Inr srcs \<Rightarrow>
      case get p ''variants'' of Inl e \<Rightarrow> Inl e | Inr vs \<Rightarrow>
      case call_map vs mapVariant of Inl e \<Rightarrow> Inl e | Inr vars \<Rightarrow>
      Inr \<lparr>p_id = i, p_title = t, p_description = d, p_handle = h,
           p_images = srcs, p_variants = vars\<rparr>)"

text \<open>Lines 57-72: fetch the catalog through the handle, map it, store both lists.\<close>

definition loadProducts :: "Client \<Rightarrow> world \<Rightarrow> completion \<times> world \<times> event list" where
  "loadProducts c w =
     (case product_fetchAll c of
        Inl e \<Rightarrow> (Throw e, w, [ProductFetchAll, Await])
      | Inr prods \<Rightarrow>
          (case call_map prods mapProduct of
             Inl e \<Rightarrow> (Throw e, w, [ProductFetchAll, Await])
           | Inr mapped \<Rightarrow>
               (Normal, w\<lparr>products := mapped, featured := take 3 mapped\<rparr>,
                [ProductFetchAll, Await])))"

text \<open>Line 44: \<^verbatim>\<open>!config.domain || !config.storefrontAccessToken\<close>.\<close>

definition configMissing :: "jsval \<Rightarrow> js_error + bool" where
  "configMissing config =
     (case get config ''domain'' of
        Inl e \<Rightarrow> Inl e
      | Inr d \<Rightarrow>
          if \<not> truthy d then Inr True
          else (case get config ''storefrontAccessToken'' of
                  Inl e \<Rightarrow> Inl e
                | Inr t \<Rightarrow> Inr (\<not> truthy t)))"

text \<open>Lines 51-55: the object literal passed to \<^verbatim>\<open>Client.buildClient\<close>.\<close>

definition clientConfig :: "jsval \<Rightarrow> js_error + ClientConfig" where
  "clientConfig config =
     (case get config ''domain'' of Inl e \<Rightarrow> Inl e | Inr d \<Rightarrow>
      case call_replace d ''https://'' '''' of Inl e \<Rightarrow> Inl e | Inr stripped \<Rightarrow>
      case get config ''storefrontAccessToken'' of Inl e \<Rightarrow> Inl e | Inr t \<Rightarrow>
      Inr \<lparr>domain = stripped, storefrontAccessToken = t, apiVersion = ''2024-01''\<rparr>)"

text \<open>Lines 44-72, once the configuration document is there.\<close>

definition configure :: "env \<Rightarrow> jsval \<Rightarrow> world \<Rightarrow> completion \<times> world \<times> event list" where
  "configure en config w =
     (case configMissing config of
        Inl e \<Rightarrow> (Throw e, w, [])
      | Inr True \<Rightarrow> (Return, w\<lparr>configError := True, loading := False\<rparr>, [])
      | Inr False \<Rightarrow>
          (case clientConfig config of
             Inl e \<Rightarrow> (Throw e, w, [])
           | Inr args \<Rightarrow>
               (case buildClient en args of
                  Inl e \<Rightarrow> (Throw e, w, [BuildClient args])
                | Inr c \<Rightarrow>
                    (case loadProducts c (w\<lparr>client := Some c\<rparr>) of
                       (r, w', tr) \<Rightarrow> (r, w', BuildClient args # tr)))))"

text \<open>Lines 40-72: the body of the \<^verbatim>\<open>try\<close>.\<close>

definition tryLoad :: "env \<Rightarrow> world \<Rightarrow> completion \<times> world \<times> event list" where
  "tryLoad en w =
     (case fetch en ''/api/config/shopify'' of
        Inl e \<Rightarrow> (Throw e, w, [Fetch ''/api/config/shopify'', Await])
      | Inr configRes \<Rightarrow>
          (case configRes of
             Inl e \<Rightarrow>
               (Throw e, w, [Fetch ''/api/config/shopify'', Await, ResponseJson, Await])
           | Inr config \<Rightarrow>
               (case configure en config w of
                  (r, w', tr) \<Rightarrow>
                    (r, w', [Fetch ''/api/config/shopify'', Await, ResponseJson, Await] @ tr))))"

text \<open>
  Lines 37-78. The \<^verbatim>\<open>return\<close> of line 47 leaves the function, so line 77 does not run
  after it; the \<^verbatim>\<open>catch\<close> logs the cause and sets the error flag, and line 77 runs.
\<close>

definition initializeAndLoad :: "env \<Rightarrow> world \<Rightarrow> world \<times> event list" where
  "initializeAndLoad en w =
     (case tryLoad en (w\<lparr>loading := True\<rparr>) of
        (Normal, w', tr) \<Rightarrow> (w'\<lparr>loading := False\<rparr>, tr)
      | (Return, w', tr) \<Rightarrow> (w', tr)
      | (Throw e, w', tr) \<Rightarrow>
          (w'\<lparr>configError := True, loading := False\<rparr>,
           tr @ [ConsoleError [LogText ''Shopify fetch error'', LogError e]]))"

section \<open>The Checkout Initiator (startCheckout)\<close>

text \<open>Lines 88-91: the body of the \<^verbatim>\<open>try\<close>.\<close>

definition tryCheckout :: "Client \<Rightarrow> string \<Rightarrow> int \<Rightarrow> completion \<times> event list" where
  "tryCheckout c vid qty =
     (case checkout_create c of
        Inl e \<Rightarrow> (Throw e, [CheckoutCreate, Await])
      | Inr checkout \<Rightarrow>
          (let lineItemsToAdd = [\<lparr>variantId = vid, quantity = qty\<rparr>] in
           case get checkout ''id'' of
             Inl e \<Rightarrow> (Throw e, [CheckoutCreate, Await])
           | Inr cid \<Rightarrow>
               (case checkout_addLineItems c cid lineItemsToAdd of
                  Inl e \<Rightarrow>
                    (Throw e,
                     [CheckoutCreate, Await, CheckoutAddLineItems cid lineItemsToAdd, Await])
                | Inr updated \<Rightarrow>
                    (case get updated ''webUrl'' of
                       Inl e \<Rightarrow>
                         (Throw e,
                          [CheckoutCreate, Await,
                           CheckoutAddLineItems cid lineItemsToAdd, Await])
                     | Inr url \<Rightarrow>
                         (Normal,
                          [CheckoutCreate, Await,
                           CheckoutAddLineItems cid lineItemsToAdd, Await,
                           Navigate url])))))"

text \<open>
  Lines 82-96. The second argument is optional (\<^verbatim>\<open>qty = 1\<close>). The function changes no
  state of the page; its result is the effects it has.
\<close>

definition startCheckout :: "world \<Rightarrow> string \<Rightarrow> int option \<Rightarrow> event list" where
  "startCheckout w vid qty_arg =
     (let qty = (case qty_arg of None \<Rightarrow> 1 | Some q \<Rightarrow> q) in
      case client w of
        None \<Rightarrow> [Alert ''Shopify client not initialized'']
      | Some c \<Rightarrow>
          (case tryCheckout c vid qty of
             (Throw e, tr) \<Rightarrow>
               tr @ [ConsoleError [LogError e],
                     Alert ''Could not start checkout. Check console for details.'']
           | (r, tr) \<Rightarrow> tr))"

section \<open>What the component renders\<close>

text \<open>
  The part of the returned tree that depends on the state: the configuration-error page,
  or the page with the featured grid and the shop grid. A card holds what lines 158-178
  and 194-216 put into it.
\<close>

record card_view =
  card_key :: jsval
  card_image :: jsval
  card_title :: jsval
  card_price :: string

datatype node =
    LoadingFeatured
  | FeaturedCard card_view
  | LoadingProducts
  | NoProducts
  | ProductCard card_view

datatype view = ConfigErrorPage | StorePage "node list" "node list"

text \<open>\<^verbatim>\<open>p.variants[0]?.price.amount\<close>: the chain stops at an absent first variant.\<close>

definition firstVariantAmount :: "Product \<Rightarrow> js_error + jsval" where
  "firstVariantAmount p =
     (case p_variants p of
        [] \<Rightarrow> Inr JUndefined
      | v # vs \<Rightarrow> get (v_price v) ''amount'')"

text \<open>\<^verbatim>\<open>p.images[0] || "/placeholder.png"\<close>.\<close>

definition firstImage :: "Product \<Rightarrow> jsval" where
  "firstImage p =
     (case p_images p of
        [] \<Rightarrow> JStr ''/placeholder.png''
      | i # is \<Rightarrow> if truthy i then i else JStr ''/placeholder.png'')"

definition renderCard :: "Product \<Rightarrow> js_error + card_view" where
  "renderCard p =
     (case firstVariantAmount p of
        Inl e \<Rightarrow> Inl e
      | Inr amount \<Rightarrow>
          (case formatPrice amount of
             Inl e \<Rightarrow> Inl e
           | Inr price \<Rightarrow>
               Inr \<lparr>card_key = p_id p, card_image = firstImage p, card_title = p_title p,
                    card_price = price\<rparr>))"

text \<open>Lines 98-282.\<close>

definition render :: "world \<Rightarrow> js_error + view" where
  "render w =
     (if configError w then Inr ConfigErrorPage
      else
        (case (if loading w then Inr [LoadingFeatured]
               else (case traverse renderCard (featured w) of
                       Inl e \<Rightarrow> Inl e
                     | Inr cs \<Rightarrow> Inr (map FeaturedCard cs))) of
           Inl e \<Rightarrow> Inl e
         | Inr featuredGrid \<Rightarrow>
             (case traverse renderCard (products w) of
                Inl e \<Rightarrow> Inl e
              | Inr cs \<Rightarrow>
                  Inr (StorePage featuredGrid
                         ((if loading w then [LoadingProducts] else []) @
                          (if \<not> loading w \<and> length (products w) = 0 then [NoProducts] else []) @
                          map ProductCard cs)))))"

section \<open>The Config Provider (routes.ts)\<close>

record response =
  status :: nat
  body :: jsval

text \<open>\<^verbatim>\<open>process.env.NAME || ""\<close>: an unset variable reads as \<^verbatim>\<open>undefined\<close>.\<close>

definition env_or_empty :: "(string \<rightharpoonup> string) \<Rightarrow> string \<Rightarrow> string" where
  "env_or_empty penv name =
     (case penv name of None \<Rightarrow> '''' | Some v \<Rightarrow> if v \<noteq> [] then v else '''')"

text \<open>Lines 7-12: the handler; \<^verbatim>\<open>res.json\<close> answers with the default status 200.\<close>

definition shopifyConfigHandler :: "(string \<rightharpoonup> string) \<Rightarrow> response" where
  "shopifyConfigHandler penv =
     \<lparr>status = 200,
      body = JObj [(''domain'', JStr (env_or_empty penv ''SHOPIFY_STORE_DOMAIN'')),
                   (''storefrontAccessToken'',
                    JStr (env_or_empty penv ''SHOPIFY_STOREFRONT_ACCESS_TOKEN''))]\<rparr>"

text \<open>
  The route that \<^verbatim>\<open>registerRoutes\<close> registers, for the request \<^verbatim>\<open>GET\<close> of exactly
  this path. \<open>None\<close> stands for a request outside the model, not for an answer: how the
  framework routes other spellings of the request (a trailing slash, other letter case,
  \<^verbatim>\<open>HEAD\<close>) is not modelled.
\<close>

definition registerRoutes :: "(string \<rightharpoonup> string) \<Rightarrow> string \<Rightarrow> string \<Rightarrow> response option" where
  "registerRoutes penv method path =
     (if method = ''GET'' \<and> path = ''/api/config/shopify''
      then Some (shopifyConfigHandler penv) else None)"

section \<open>Sample collaborators\<close>

text \<open>Concrete platform data and collaborators, for running the definitions.\<close>

definition raw_variant :: "string \<Rightarrow> string \<Rightarrow> jsval" where
  "raw_variant i amount =
     JObj [(''id'', JStr i), (''title'', JStr ''Default Title''),
           (''price'', JObj [(''amount'', JStr amount), (''currencyCode'', JStr ''USD'')])]"

definition raw_product :: "string \<Rightarrow> string list \<Rightarrow> jsval list \<Rightarrow> jsval" where
  "raw_product i srcs vs =
     JObj [(''id'', JStr i), (''title'', JStr (''Hoodie '' @ i)),
           (''description'', JStr ''Heavyweight''), (''handle'', JStr (''hoodie-'' @ i)),
           (''images'', JArr (map (\<lambda>s. JObj [(''src'', JStr s)]) srcs)),
           (''variants'', JArr vs)]"

definition sample_catalog :: "jsval list" where
  "sample_catalog =
     [raw_product ''p1'' [''https://cdn.example/p1.png''] [raw_variant ''v1'' ''19.5''],
      raw_product ''p2'' [] [],
      raw_product ''p3'' [] [raw_variant ''v3'' ''40.0'', raw_variant ''v4'' ''45.0''],
      raw_product ''p4'' [] [raw_variant ''v5'' ''0'']]"

definition session :: "jsval \<Rightarrow> jsval" where
  "session i = JObj [(''id'', i), (''webUrl'', JStr ''https://crush.example/checkouts/c1'')]"

definition sample_client :: "jsval list \<Rightarrow> Client" where
  "sample_client catalog =
     \<lparr>product_fetchAll = Inr (JArr catalog),
      checkout_create = Inr (session (JStr ''c1'')),
      checkout_addLineItems = (\<lambda>cid items. Inr (session cid))\<rparr>"

definition sample_env :: "jsval \<Rightarrow> Client \<Rightarrow> env" where
  "sample_env config c =
     \<lparr>fetch = (\<lambda>url. if url = ''/api/config/shopify'' then Inr (Inr config)
                      else Inl (Thrown (JStr ''404''))),
      buildClient = (\<lambda>args. Inr c)\<rparr>"

definition store_config :: "string \<Rightarrow> string \<Rightarrow> jsval" where
  "store_config d t = JObj [(''domain'', JStr d), (''storefrontAccessToken'', JStr t)]"

text \<open>What the four records of \<open>sample_catalog\<close> are mapped to.\<close>

definition sample_products :: "Product list" where
  "sample_products =
     [\<lparr>p_id = JStr ''p1'', p_title = JStr ''Hoodie p1'', p_description = JStr ''Heavyweight'',
       p_handle = JStr ''hoodie-p1'', p_images = [JStr ''https://cdn.example/p1.png''],
       p_variants = [\<lparr>v_id = JStr ''v1'',
                      v_price = JObj [(''amount'', JStr ''19.5''), (''currencyCode'', JStr ''USD'')],
                      v_title = JStr ''Default Title''\<rparr>]\<rparr>,
      \<lparr>p_id = JStr ''p2'', p_title = JStr ''Hoodie p2'', p_description = JStr ''Heavyweight'',
       p_handle = JStr ''hoodie-p2'', p_images = [], p_variants = []\<rparr>,
      \<lparr>p_id = JStr ''p3'', p_title = JStr ''Hoodie p3'', p_description = JStr ''Heavyweight'',
       p_handle = JStr ''hoodie-p3'', p_images = [],
       p_variants = [\<lparr>v_id = JStr ''v3'',
                      v_price = JObj [(''amount'', JStr ''40.0''), (''currencyCode'', JStr ''USD'')],
                      v_title = JStr ''Default Title''\<rparr>,
                     \<lparr>v_id = JStr ''v4'',
                      v_price = JObj [(''amount'', JStr ''45.0''), (''currencyCode'', JStr ''USD'')],
                      v_title = JStr ''Default Title''\<rparr>]\<rparr>,
      \<lparr>p_id = JStr ''p4'', p_title = JStr ''Hoodie p4'', p_description = JStr ''Heavyweight'',
       p_handle = JStr ''hoodie-p4'', p_images = [],
       p_variants = [\<lparr>v_id = JStr ''v5'',
                      v_price = JObj [(''amount'', JStr ''0''), (''currencyCode'', JStr ''USD'')],
                      v_title = JStr ''Default Title''\<rparr>]\<rparr>]"

section \<open>Auxiliary facts\<close>

lemma traverse_Inr:
  "traverse f xs = Inr ys \<Longrightarrow>
   length ys = length xs \<and> (\<forall>i<length xs. f (xs ! i) = Inr (ys ! i))"
proof (induction xs arbitrary: ys)
  case Nil
  then show ?case by simp
next
  case (Cons x xs)
  from Cons.prems obtain y ys' where y: "f x = Inr y" and ys': "traverse f xs = Inr ys'"
    and ys: "ys = y # ys'"
    by (auto split: sum.splits)
  from Cons.IH [OF ys'] have ih: "length ys' = length xs"
    "\<forall>i<length xs. f (xs ! i) = Inr (ys' ! i)" by simp_all
  show ?case
  proof (intro conjI allI impI)
    show "length ys = length (x # xs)" using ih ys by simp
  next
    fix i assume "i < length (x # xs)"
    then show "f ((x # xs) ! i) = Inr (ys ! i)"
      using y ih ys by (cases i) simp_all
  qed
qed

text \<open>
  When the mapping succeeds: a property read needs a value other than \<^verbatim>\<open>undefined\<close>
  and \<^verbatim>\<open>null\<close>, and a raw product is mapped when, and only when, its images and its
  variants are arrays without \<^verbatim>\<open>undefined\<close> and \<^verbatim>\<open>null\<close> elements.
\<close>

lemma get_total_iff: "(\<exists>y. get v k = Inr y) \<longleftrightarrow> v \<noteq> JUndefined \<and> v \<noteq> JNull"
  by (cases v) auto

lemma traverse_total_iff:
  "(\<exists>ys. traverse f xs = Inr ys) \<longleftrightarrow> (\<forall>x\<in>set xs. \<exists>y. f x = Inr y)"
  by (induction xs) (auto split: sum.splits)

lemma mapVariant_total_iff:
  "(\<exists>y. mapVariant v = Inr y) \<longleftrightarrow> v \<noteq> JUndefined \<and> v \<noteq> JNull"
  by (cases v) (auto simp: mapVariant_def)

lemma call_map_total_iff:
  "(\<exists>ys. call_map v f = Inr ys) \<longleftrightarrow> (\<exists>xs. v = JArr xs \<and> (\<forall>x\<in>set xs. \<exists>y. f x = Inr y))"
  by (cases v) (auto simp: traverse_total_iff)

lemma mapProduct_total_iff:
  "(\<exists>q. mapProduct p = Inr q) \<longleftrightarrow>
   (\<exists>imgs vs. get p ''images'' = Inr (JArr imgs) \<and> get p ''variants'' = Inr (JArr vs) \<and>
      (\<forall>i\<in>set imgs. i \<noteq> JUndefined \<and> i \<noteq> JNull) \<and>
      (\<forall>v\<in>set vs. v \<noteq> JUndefined \<and> v \<noteq> JNull))"
proof (cases "p = JUndefined \<or> p = JNull")
  case True
  then show ?thesis by (auto simp: mapProduct_def)
next
  case False
  then obtain i t d h im va where g: "get p ''id'' = Inr i" "get p ''title'' = Inr t"
    "get p ''description'' = Inr d" "get p ''handle'' = Inr h"
    "get p ''images'' = Inr im" "get p ''variants'' = Inr va"
    using get_total_iff by metis
  have "(\<exists>q. mapProduct p = Inr q) \<longleftrightarrow>
          (\<exists>srcs. call_map im (\<lambda>i. get i ''src'') = Inr srcs) \<and>
          (\<exists>vars. call_map va mapVariant = Inr vars)"
    using g by (auto simp: mapProduct_def split: sum.splits)
  also have "\<dots> \<longleftrightarrow>
          (\<exists>imgs. im = JArr imgs \<and> (\<forall>i\<in>set imgs. i \<noteq> JUndefined \<and> i \<noteq> JNull)) \<and>
          (\<exists>vs. va = JArr vs \<and> (\<forall>v\<in>set vs. v \<noteq> JUndefined \<and> v \<noteq> JNull))"
    by (simp add: call_map_total_iff get_total_iff mapVariant_total_iff)
  finally show ?thesis using g by auto
qed

lemma sample_mapped: "traverse mapProduct sample_catalog = Inr sample_products"
  by (simp add: sample_catalog_def sample_products_def raw_product_def raw_variant_def
        mapProduct_def mapVariant_def)

text \<open>A pattern at the very start of the string is the occurrence that is replaced.\<close>

lemma replace_prefix: "replace (pat @ r) pat rep = rep @ r"
proof (cases "pat @ r")
  case Nil
  then show ?thesis by simp
next
  case (Cons c cs)
  have t: "take (length pat) (c # cs) = pat" and d: "drop (length pat) (c # cs) = r"
    unfolding Cons [symmetric] by simp_all
  show ?thesis unfolding Cons using t d by simp
qed

text \<open>
  An occurrence of the pattern before which no other occurrence starts is the one that is
  replaced.
\<close>

lemma replace_first:
  assumes "pat \<noteq> []" and "\<not> sublist pat (a @ butlast pat)"
  shows "replace (a @ pat @ b) pat rep = a @ rep @ b"
  using assms(2)
proof (induction a)
  case Nil
  show ?case using replace_prefix [of pat b rep] by simp
next
  case (Cons c a)
  have long: "length pat \<le> length ((c # a) @ butlast pat)"
    by simp
  have split: "(c # a) @ pat @ b = ((c # a) @ butlast pat) @ ([last pat] @ b)"
    using assms(1) by simp
  have no_here: "take (length pat) (c # a @ pat @ b) \<noteq> pat"
  proof
    assume h: "take (length pat) (c # a @ pat @ b) = pat"
    have "take (length pat) ((c # a) @ pat @ b) = take (length pat) ((c # a) @ butlast pat)"
      unfolding split using long by (simp del: append_Cons append_assoc)
    with h have "take (length pat) ((c # a) @ butlast pat) = pat" by simp
    then have "(c # a) @ butlast pat = [] @ pat @ drop (length pat) ((c # a) @ butlast pat)"
      by (metis append_Nil append_take_drop_id)
    then have "sublist pat ((c # a) @ butlast pat)" unfolding sublist_def by blast
    with Cons.prems show False by blast
  qed
  have "\<not> sublist pat (a @ butlast pat)"
    using Cons.prems by (auto simp: sublist_Cons_right)
  with Cons.IH have "replace (a @ pat @ b) pat rep = a @ rep @ b" by simp
  with no_here show ?case by simp
qed

text \<open>A string in which the pattern does not occur is left as it is.\<close>

lemma replace_absent: "\<not> sublist pat s \<Longrightarrow> replace s pat rep = s"
proof (induction s)
  case Nil
  then show ?case by auto
next
  case (Cons c cs)
  have no_here: "take (length pat) (c # cs) \<noteq> pat"
  proof
    assume h: "take (length pat) (c # cs) = pat"
    have "c # cs = [] @ pat @ drop (length pat) (c # cs)"
      using h by (metis append_Nil append_take_drop_id)
    then have "sublist pat (c # cs)" unfolding sublist_def by blast
    with Cons.prems show False by blast
  qed
  have "\<not> sublist pat cs"
    using Cons.prems by (meson sublist_Cons_right)
  with Cons.IH have "replace cs pat rep = cs" by simp
  with no_here show ?case by simp
qed

text \<open>
  Leading white space: its characters are not prefixes of one another, so the split of a
  string into leading white space and a rest that starts with none is the one
  \<open>trim_start\<close> computes.
\<close>

lemma white_space_prefix_free:
  assumes "t \<in> set white_space" and "t' \<in> set white_space" and "prefix t t'"
  shows "t = t'"
proof -
  have "list_all (\<lambda>t. list_all (\<lambda>t'. prefix t t' \<longrightarrow> t = t') white_space) white_space"
    by code_simp
  with assms show ?thesis
    by (auto simp: list_all_iff)
qed

lemma trim_start_concat:
  assumes "\<forall>t\<in>set white_space. \<not> prefix t r"
  shows "set ws \<subseteq> set white_space \<Longrightarrow> trim_start (concat ws @ r) = r"
proof (induction ws)
  case Nil
  from assms have "find (\<lambda>t. prefix t r) white_space = None"
    by (simp add: find_None_iff)
  then show ?case
    by (simp add: trim_start.simps [of r])
next
  case (Cons t ws)
  let ?s = "concat (t # ws) @ r"
  from Cons.prems have t: "t \<in> set white_space" and ws: "set ws \<subseteq> set white_space"
    by simp_all
  have pt: "prefix t ?s"
    by simp
  with t have "find (\<lambda>t'. prefix t' ?s) white_space \<noteq> None"
    by (auto simp: find_None_iff)
  then obtain t' where f: "find (\<lambda>t'. prefix t' ?s) white_space = Some t'"
    by auto
  then have t': "t' \<in> set white_space" and pt': "prefix t' ?s"
    by (auto simp: find_Some_iff)
  from pt pt' have "prefix t t' \<or> prefix t' t"
    by (rule prefix_same_cases)
  with t t' have "t' = t"
    using white_space_prefix_free by blast
  with f have "trim_start ?s = trim_start (drop (length t) ?s)"
    by (subst trim_start.simps) simp
  also have "drop (length t) ?s = concat ws @ r"
    by simp
  finally show ?case
    using Cons.IH [OF ws] by simp
qed

lemma trim_start_decomp:
  "\<exists>ws. set ws \<subseteq> set white_space \<and> s = concat ws @ trim_start s"
proof (induction s rule: trim_start.induct)
  case (1 s)
  show ?case
  proof (cases "find (\<lambda>t. prefix t s) white_space")
    case None
    then have "trim_start s = s"
      by (simp add: trim_start.simps [of s])
    then have "set [] \<subseteq> set white_space \<and> s = concat [] @ trim_start s"
      by simp
    then show ?thesis by blast
  next
    case (Some t)
    then have t: "t \<in> set white_space" and p: "prefix t s"
      by (auto simp: find_Some_iff)
    from Some have eq: "trim_start s = trim_start (drop (length t) s)"
      by (simp add: trim_start.simps [of s])
    from "1.IH" [OF Some] obtain ws where ws: "set ws \<subseteq> set white_space"
      and d: "drop (length t) s = concat ws @ trim_start (drop (length t) s)"
      by blast
    from p have "s = t @ drop (length t) s"
      by (auto simp: prefix_def)
    with d eq have "s = concat (t # ws) @ trim_start s"
      by simp
    with t ws show ?thesis
      by (intro exI [of _ "t # ws"]) simp
  qed
qed

lemma trim_start_done: "t \<in> set white_space \<Longrightarrow> \<not> prefix t (trim_start s)"
proof (induction s rule: trim_start.induct)
  case (1 s)
  show ?case
  proof (cases "find (\<lambda>t. prefix t s) white_space")
    case None
    then have "trim_start s = s"
      by (simp add: trim_start.simps [of s])
    with None "1.prems" show ?thesis
      by (auto simp: find_None_iff)
  next
    case (Some t')
    then have "trim_start s = trim_start (drop (length t') s)"
      by (simp add: trim_start.simps [of s])
    with "1.IH" [OF Some "1.prems"] show ?thesis by simp
  qed
qed

lemma unsigned_None_iff:
  "takeWhile is_digit u = [] \<and>
   fst (case dropWhile is_digit u of
          [] \<Rightarrow> ([], [])
        | c # cs \<Rightarrow>
            if c = CHR ''.''
            then (takeWhile is_digit cs, dropWhile is_digit cs)
            else ([], dropWhile is_digit u)) = [] \<longleftrightarrow>
   (\<forall>d. is_digit d \<longrightarrow> \<not> prefix [d] u \<and> \<not> prefix [CHR ''.'', d] u)"
proof (cases u)
  case Nil
  then show ?thesis by simp
next
  case (Cons c cs)
  have dot: "\<not> is_digit (CHR ''.'')"
    by (simp add: is_digit_def)
  show ?thesis
  proof (cases "is_digit c")
    case True
    with Cons show ?thesis by auto
  next
    case False
    show ?thesis
    proof (cases "c = CHR ''.''")
      case True
      with Cons dot show ?thesis
        by (cases cs) (auto simp: takeWhile_eq_Nil_iff)
    next
      case ndot: False
      with Cons False show ?thesis by auto
    qed
  qed
qed

lemma str_decimal_prefix_None_iff:
  "str_decimal_prefix r = None \<longleftrightarrow>
   (let u = (if prefix ''+'' r \<or> prefix ''-'' r then tl r else r)
    in \<not> prefix ''Infinity'' u \<and>
       (\<forall>d\<in>set ''0123456789''. \<not> prefix [d] u \<and> \<not> prefix [CHR ''.'', d] u))"
proof -
  let ?u = "if prefix ''+'' r \<or> prefix ''-'' r then tl r else r"
  let ?neg = "prefix ''-'' r"
  have split: "(case r of
                  [] \<Rightarrow> (False, [])
                | c # cs \<Rightarrow>
                    if c = CHR ''+'' then (False, cs)
                    else if c = CHR ''-'' then (True, cs)
                    else (False, r)) = (?neg, ?u)"
    by (cases r) auto
  have "str_decimal_prefix r = None \<longleftrightarrow>
          \<not> prefix ''Infinity'' ?u \<and>
          takeWhile is_digit ?u = [] \<and>
          fst (case dropWhile is_digit ?u of
                 [] \<Rightarrow> ([], [])
               | c # cs \<Rightarrow>
                   if c = CHR ''.''
                   then (takeWhile is_digit cs, dropWhile is_digit cs)
                   else ([], dropWhile is_digit ?u)) = []"
    unfolding str_decimal_prefix_def split
    by (simp add: Let_def split: prod.splits del: prefix_code)
  also have "\<dots> \<longleftrightarrow>
          \<not> prefix ''Infinity'' ?u \<and>
          (\<forall>d. is_digit d \<longrightarrow> \<not> prefix [d] ?u \<and> \<not> prefix [CHR ''.'', d] ?u)"
    using unsigned_None_iff [of ?u] by blast
  finally show ?thesis
    by (simp add: is_digit_def Let_def Ball_def del: prefix_code set_simps)
qed

lemma digit_char_digit: "d < 10 \<Longrightarrow> is_digit (digit_char d)"
  unfolding digit_char_def is_digit_def by (rule nth_mem) simp

lemma digits_digit: "c \<in> set (digits n) \<Longrightarrow> is_digit c"
proof (induction n arbitrary: c rule: digits.induct)
  case (1 n)
  show ?case
  proof (cases "n < 10")
    case True
    with "1.prems" show ?thesis
      using digit_char_digit [of n] by (simp add: digits.simps [of n])
  next
    case False
    have "n mod 10 < 10" by simp
    then have "is_digit (digit_char (n mod 10))"
      by (rule digit_char_digit)
    with False "1.IH" "1.prems" show ?thesis
      by (auto simp: digits.simps [of n])
  qed
qed

lemma digits_no_N: "CHR ''N'' \<notin> set (digits n)"
proof
  assume "CHR ''N'' \<in> set (digits n)"
  then have "is_digit (CHR ''N'')" by (rule digits_digit)
  then show False by (simp add: is_digit_def)
qed

lemma take_digits_no_N: "CHR ''N'' \<notin> set (take k (digits n))"
  using digits_no_N [of n] set_take_subset [of k "digits n"] by blast

lemma drop_digits_no_N: "CHR ''N'' \<notin> set (drop k (digits n))"
  using digits_no_N [of n] set_drop_subset [of k "digits n"] by blast

lemma positive_to_string_no_N: "CHR ''N'' \<notin> set (positive_to_string x)"
  by (auto simp: positive_to_string_def Let_def digits_no_N take_digits_no_N drop_digits_no_N
        split: prod.splits)

lemma number_to_string_no_N: "CHR ''N'' \<notin> set (number_to_string (Finite x))"
  using positive_to_string_no_N by simp

lemma toFixed_2_total: "\<exists>s. toFixed n 2 = Inr s"
  by (cases n) (simp_all add: toFixed_def Let_def)

lemma toFixed_not_NaN:
  assumes "x \<noteq> NaN" and "toFixed x 2 = Inr t"
  shows "t \<noteq> ''NaN''"
proof (cases x)
  case NaN
  with assms show ?thesis by simp
next
  case PosInfinity
  with assms show ?thesis by (auto simp: toFixed_def)
next
  case NegInfinity
  with assms show ?thesis by (auto simp: toFixed_def)
next
  case (Finite r)
  define sgn where "sgn = (if r < 0 then ''-'' else [])"
  define m where "m = digits \<lfloor>\<bar>r\<bar> * 10 ^ 2 + 1 / 2\<rfloor>"
  define m' where
    "m' = (if length m \<le> 2 then replicate (2 + 1 - length m) (CHR ''0'') @ m else m)"
  define k where "k = length m' - 2"
  have sgn: "CHR ''N'' \<notin> set sgn"
    by (simp add: sgn_def)
  have "CHR ''N'' \<notin> set m"
    unfolding m_def by (rule digits_no_N)
  then have m': "CHR ''N'' \<notin> set m'"
    by (auto simp: m'_def)
  have tk: "CHR ''N'' \<notin> set (take k m')" and dr: "CHR ''N'' \<notin> set (drop k m')"
    using m' set_take_subset [of k m'] set_drop_subset [of k m'] by blast+
  have "t = sgn @ number_to_string (Finite \<bar>r\<bar>) \<or> t = sgn @ take k m' @ ''.'' @ drop k m'"
    using assms(2) Finite
    by (auto simp: toFixed_def Let_def sgn_def m_def m'_def k_def split: if_splits)
  then have "CHR ''N'' \<notin> set t"
    using sgn tk dr number_to_string_no_N [of "\<bar>r\<bar>"] by auto
  then show ?thesis by auto
qed

lemma literal_value_not_NaN: "literal_value l \<noteq> NaN"
  by (cases l) (auto simp: to_double_def Let_def)

lemma formatPrice_string_total: "\<exists>t. formatPrice (JStr s) = Inr t"
proof -
  obtain t where "toFixed (parseFloat (if s \<noteq> [] then s else number_to_string (Finite 0))) 2 = Inr t"
    using toFixed_2_total by blast
  then show ?thesis
    by (cases "s = []") (simp_all add: formatPrice_def)
qed

lemma formatPrice_NaN_iff:
  assumes "s \<noteq> []"
  shows "formatPrice (JStr s) = Inr ''$NaN'' \<longleftrightarrow> str_decimal_prefix (trim_start s) = None"
proof (cases "str_decimal_prefix (trim_start s)")
  case None
  with assms show ?thesis
    by (simp add: formatPrice_def parseFloat_def toFixed_def)
next
  case (Some l)
  obtain t where t: "toFixed (literal_value l) 2 = Inr t"
    using toFixed_2_total by blast
  with literal_value_not_NaN have "t \<noteq> ''NaN''"
    by (rule toFixed_not_NaN)
  with Some t assms show ?thesis
    by (simp add: formatPrice_def parseFloat_def)
qed

lemma formatPrice_19_5: "formatPrice (JStr ''19.5'') = Inr ''$19.50''"
  by code_simp

lemma formatPrice_0: "formatPrice (JStr ''0'') = Inr ''$0.00''"
  by code_simp

lemma formatPrice_empty: "formatPrice (JStr '''') = Inr ''$0.00''"
  by code_simp

lemma formatPrice_undefined: "formatPrice JUndefined = Inr ''$0.00''"
  by code_simp

lemma formatPrice_NaN_characterised:
  assumes "set ws \<subseteq> set white_space" and "\<forall>t\<in>set white_space. \<not> prefix t r"
  shows "formatPrice (JStr (concat ws @ r)) = Inr ''$NaN'' \<longleftrightarrow>
         concat ws @ r \<noteq> [] \<and>
         (let u = (if prefix ''+'' r \<or> prefix ''-'' r then tl r else r)
          in \<not> prefix ''Infinity'' u \<and>
             (\<forall>d\<in>set ''0123456789''. \<not> prefix [d] u \<and> \<not> prefix [CHR ''.'', d] u))"
proof (cases "concat ws @ r = []")
  case True
  have "formatPrice (JStr (concat ws @ r)) = Inr ''$0.00''"
    unfolding True by (rule formatPrice_empty)
  then have "formatPrice (JStr (concat ws @ r)) \<noteq> Inr ''$NaN''"
    by simp
  with True show ?thesis by blast
next
  case False
  have "trim_start (concat ws @ r) = r"
    using trim_start_concat [OF assms(2) assms(1)] .
  with formatPrice_NaN_iff [OF False] str_decimal_prefix_None_iff [of r] False
  show ?thesis by simp
qed

lemma white_space_decomposition:
  "\<exists>ws r. s = concat ws @ r \<and> set ws \<subseteq> set white_space \<and>
     (\<forall>t\<in>set white_space. \<not> prefix t r)"
proof -
  obtain ws where "set ws \<subseteq> set white_space" and "s = concat ws @ trim_start s"
    using trim_start_decomp by blast
  then show ?thesis
    using trim_start_done by blast
qed

lemma white_space_set:
  "{[CHR 0x09], [CHR 0x0A], [CHR 0x0B], [CHR 0x0C], [CHR 0x0D], [CHR 0x20],
    [CHR 0xC2, CHR 0xA0],
    [CHR 0xE1, CHR 0x9A, CHR 0x80],
    [CHR 0xE2, CHR 0x80, CHR 0x80], [CHR 0xE2, CHR 0x80, CHR 0x81],
    [CHR 0xE2, CHR 0x80, CHR 0x82], [CHR 0xE2, CHR 0x80, CHR 0x83],
    [CHR 0xE2, CHR 0x80, CHR 0x84], [CHR 0xE2, CHR 0x80, CHR 0x85],
    [CHR 0xE2, CHR 0x80, CHR 0x86], [CHR 0xE2, CHR 0x80, CHR 0x87],
    [CHR 0xE2, CHR 0x80, CHR 0x88], [CHR 0xE2, CHR 0x80, CHR 0x89],
    [CHR 0xE2, CHR 0x80, CHR 0x8A],
    [CHR 0xE2, CHR 0x80, CHR 0xA8], [CHR 0xE2, CHR 0x80, CHR 0xA9],
    [CHR 0xE2, CHR 0x80, CHR 0xAF],
    [CHR 0xE2, CHR 0x81, CHR 0x9F],
    [CHR 0xE3, CHR 0x80, CHR 0x80],
    [CHR 0xEF, CHR 0xBB, CHR 0xBF]} = set white_space"
  by (simp add: white_space_def)

text \<open>A run in which the second record of the catalog cannot be mapped.\<close>

lemma sample_broken_run:
  "configError (fst (initializeAndLoad
     (sample_env (store_config ''crush.myshopify.com'' ''tok'')
        (sample_client [raw_product ''p1'' [] [], JNull])) initial))"
  by (simp add: initializeAndLoad_def tryLoad_def configure_def configMissing_def
        clientConfig_def loadProducts_def sample_env_def store_config_def sample_client_def
        raw_product_def mapProduct_def initial_def)

section \<open>Properties of the Config Provider\<close>

text \<open>
  C7: whatever the environment holds, a GET of \<^verbatim>\<open>/api/config/shopify\<close> is answered
  with status 200 and a JSON object of exactly the two fields \<^verbatim>\<open>domain\<close> and
  \<^verbatim>\<open>storefrontAccessToken\<close>, each the value of its environment variable when that is
  set and the empty string when it is not. The values are not validated, and the handler
  has no other outcome.
\<close>

theorem config_provider_always_200:
  "registerRoutes penv ''GET'' ''/api/config/shopify'' =
     Some \<lparr>status = 200,
           body = JObj [(''domain'',
                         JStr (case penv ''SHOPIFY_STORE_DOMAIN'' of
                                 None \<Rightarrow> '''' | Some v \<Rightarrow> v)),
                        (''storefrontAccessToken'',
                         JStr (case penv ''SHOPIFY_STOREFRONT_ACCESS_TOKEN'' of
                                 None \<Rightarrow> '''' | Some v \<Rightarrow> v))]\<rparr>"
  by (simp add: registerRoutes_def shopifyConfigHandler_def env_or_empty_def
           split: option.split)

section \<open>Properties of formatPrice and of the price of a card\<close>

text \<open>
  C3, as the claim states it, fails: a malformed numeric string does not fall back to 0.
  \<^verbatim>\<open>"abc"\<close> is displayed as \<^verbatim>\<open>$NaN\<close> and \<^verbatim>\<open>"12,50"\<close> as \<^verbatim>\<open>$12.00\<close>,
  where the value 0 is displayed as \<^verbatim>\<open>$0.00\<close>.
\<close>

theorem formatPrice_malformed_counterexample:
  "formatPrice (JStr ''abc'') = Inr ''$NaN'' \<and>
   formatPrice (JStr ''12,50'') = Inr ''$12.00'' \<and>
   formatPrice (JNum (Finite 0)) = Inr ''$0.00''"
  by code_simp

text \<open>
  C3, amended: \<open>formatPrice\<close> maps \<^verbatim>\<open>"19.5"\<close> to \<^verbatim>\<open>$19.50\<close>; it maps
  \<^verbatim>\<open>"0"\<close>, a missing input and the empty string to \<^verbatim>\<open>$0.00\<close>; it throws for no
  input string. The fallback to 0 is for a missing or empty input only. Every string is
  some leading white space (a sequence of the white space characters \<open>W\<close>, written
  out in UTF-8) followed by a
  rest \<open>r\<close> that starts with none of them, and it is displayed as \<^verbatim>\<open>$NaN\<close> exactly
  when it is not empty and \<open>r\<close>, after one optional sign, starts neither with a digit, nor
  with a dot and a digit, nor with \<^verbatim>\<open>Infinity\<close>.
\<close>

theorem formatPrice_behaviour:
  "formatPrice (JStr ''19.5'') = Inr ''$19.50'' \<and>
   formatPrice (JStr ''0'') = Inr ''$0.00'' \<and>
   formatPrice JUndefined = Inr ''$0.00'' \<and>
   formatPrice (JStr '''') = Inr ''$0.00'' \<and>
   (\<forall>s. \<exists>t. formatPrice (JStr s) = Inr t) \<and>
   (let W = {[CHR 0x09], [CHR 0x0A], [CHR 0x0B], [CHR 0x0C], [CHR 0x0D], [CHR 0x20],
             [CHR 0xC2, CHR 0xA0],
             [CHR 0xE1, CHR 0x9A, CHR 0x80],
             [CHR 0xE2, CHR 0x80, CHR 0x80], [CHR 0xE2, CHR 0x80, CHR 0x81],
             [CHR 0xE2, CHR 0x80, CHR 0x82], [CHR 0xE2, CHR 0x80, CHR 0x83],
             [CHR 0xE2, CHR 0x80, CHR 0x84], [CHR 0xE2, CHR 0x80, CHR 0x85],
             [CHR 0xE2, CHR 0x80, CHR 0x86], [CHR 0xE2, CHR 0x80, CHR 0x87],
             [CHR 0xE2, CHR 0x80, CHR 0x88], [CHR 0xE2, CHR 0x80, CHR 0x89],
             [CHR 0xE2, CHR 0x80, CHR 0x8A],
             [CHR 0xE2, CHR 0x80, CHR 0xA8], [CHR 0xE2, CHR 0x80, CHR 0xA9],
             [CHR 0xE2, CHR 0x80, CHR 0xAF],
             [CHR 0xE2, CHR 0x81, CHR 0x9F],
             [CHR 0xE3, CHR 0x80, CHR 0x80],
             [CHR 0xEF, CHR 0xBB, CHR 0xBF]}
    in (\<forall>s. \<exists>ws r. s = concat ws @ r \<and> set ws \<subseteq> W \<and> (\<forall>t\<in>W. \<not> prefix t r)) \<and>
       (\<forall>ws r. set ws \<subseteq> W \<and> (\<forall>t\<in>W. \<not> prefix t r) \<longrightarrow>
          (formatPrice (JStr (concat ws @ r)) = Inr ''$NaN'' \<longleftrightarrow>
             concat ws @ r \<noteq> [] \<and>
             (let u = (if prefix ''+'' r \<or> prefix ''-'' r then tl r else r)
              in \<not> prefix ''Infinity'' u \<and>
                 (\<forall>d\<in>set ''0123456789''.
                    \<not> prefix [d] u \<and> \<not> prefix [CHR ''.'', d] u)))))"
proof -
  have total: "\<forall>s. \<exists>t. formatPrice (JStr s) = Inr t"
    using formatPrice_string_total by blast
  have decomp: "\<forall>s. \<exists>ws r. s = concat ws @ r \<and> set ws \<subseteq> set white_space \<and>
                  (\<forall>t\<in>set white_space. \<not> prefix t r)"
    using white_space_decomposition by blast
  have nan: "\<forall>ws r. set ws \<subseteq> set white_space \<and> (\<forall>t\<in>set white_space. \<not> prefix t r) \<longrightarrow>
               (formatPrice (JStr (concat ws @ r)) = Inr ''$NaN'' \<longleftrightarrow>
                  concat ws @ r \<noteq> [] \<and>
                  (let u = (if prefix ''+'' r \<or> prefix ''-'' r then tl r else r)
                   in \<not> prefix ''Infinity'' u \<and>
                      (\<forall>d\<in>set ''0123456789''.
                         \<not> prefix [d] u \<and> \<not> prefix [CHR ''.'', d] u)))"
    using formatPrice_NaN_characterised by blast
  show ?thesis
    unfolding Let_def white_space_set
    by (intro conjI formatPrice_19_5 formatPrice_0 formatPrice_undefined formatPrice_empty
          total decomp nan [unfolded Let_def])
qed

theorem formatPrice_behaviour_witness:
  "formatPrice (JStr '' $19.50'') = Inr ''$NaN'' \<and>
   formatPrice (JStr ''Infinity'') \<noteq> Inr ''$NaN''"
proof -
  have sp: "set ['' ''] \<subseteq> set white_space" and em: "set [] \<subseteq> set white_space"
    by (simp_all add: white_space_def)
  have d: "\<forall>t\<in>set white_space. \<not> prefix t ''$19.50''"
    and i: "\<forall>t\<in>set white_space. \<not> prefix t ''Infinity''"
    by (simp_all add: white_space_def)
  note inst = formatPrice_behaviour [unfolded Let_def white_space_set]
  from inst sp d
  have "formatPrice (JStr (concat ['' ''] @ ''$19.50'')) = Inr ''$NaN'' \<longleftrightarrow>
          concat ['' ''] @ ''$19.50'' \<noteq> [] \<and>
          \<not> prefix ''Infinity''
              (if prefix ''+'' ''$19.50'' \<or> prefix ''-'' ''$19.50'' then tl ''$19.50''
               else ''$19.50'') \<and>
          (\<forall>d\<in>set ''0123456789''.
             \<not> prefix [d]
                 (if prefix ''+'' ''$19.50'' \<or> prefix ''-'' ''$19.50'' then tl ''$19.50''
                  else ''$19.50'') \<and>
             \<not> prefix [CHR ''.'', d]
                 (if prefix ''+'' ''$19.50'' \<or> prefix ''-'' ''$19.50'' then tl ''$19.50''
                  else ''$19.50''))"
    by blast
  then have a: "formatPrice (JStr '' $19.50'') = Inr ''$NaN''"
    by simp
  from inst em i
  have "formatPrice (JStr (concat [] @ ''Infinity'')) = Inr ''$NaN'' \<longleftrightarrow>
          concat [] @ ''Infinity'' \<noteq> [] \<and>
          \<not> prefix ''Infinity''
              (if prefix ''+'' ''Infinity'' \<or> prefix ''-'' ''Infinity'' then tl ''Infinity''
               else ''Infinity'') \<and>
          (\<forall>d\<in>set ''0123456789''.
             \<not> prefix [d]
                 (if prefix ''+'' ''Infinity'' \<or> prefix ''-'' ''Infinity'' then tl ''Infinity''
                  else ''Infinity'') \<and>
             \<not> prefix [CHR ''.'', d]
                 (if prefix ''+'' ''Infinity'' \<or> prefix ''-'' ''Infinity'' then tl ''Infinity''
                  else ''Infinity''))"
    by blast
  then have b: "formatPrice (JStr ''Infinity'') \<noteq> Inr ''$NaN''"
    by simp
  from a b show ?thesis by blast
qed

text \<open>
  C9: for a product with no variants, the read of the first variant's amount does not
  throw and gives \<^verbatim>\<open>undefined\<close>, and the card is rendered with the price
  \<^verbatim>\<open>$0.00\<close>.
\<close>

theorem price_without_variants:
  "p_variants p = [] \<Longrightarrow>
   firstVariantAmount p = Inr JUndefined \<and>
   renderCard p = Inr \<lparr>card_key = p_id p, card_image = firstImage p, card_title = p_title p,
                       card_price = ''$0.00''\<rparr>"
  by (simp add: firstVariantAmount_def renderCard_def formatPrice_undefined)

theorem price_without_variants_witness:
  "p_variants (sample_products ! 1) = [] \<and>
   renderCard (sample_products ! 1) =
     Inr \<lparr>card_key = JStr ''p2'', card_image = JStr ''/placeholder.png'',
          card_title = JStr ''Hoodie p2'', card_price = ''$0.00''\<rparr>"
proof -
  have h: "p_variants (sample_products ! 1) = []"
    by (simp add: sample_products_def)
  from price_without_variants [OF h] h show ?thesis
    by (simp add: sample_products_def firstImage_def)
qed

section \<open>Properties of the Checkout Initiator\<close>

text \<open>
  C5: when the client handle is absent, the only effect of \<open>startCheckout\<close> is the
  alert: no call to the platform or to the network is made, and no \<^verbatim>\<open>await\<close> comes
  before the alert, so it is raised before the function first gives up control.
\<close>

theorem startCheckout_without_client:
  "client w = None \<Longrightarrow>
   startCheckout w vid qty_arg = [Alert ''Shopify client not initialized'']"
  by (simp add: startCheckout_def)

theorem startCheckout_without_client_witness:
  "client initial = None \<and>
   startCheckout initial ''gid://shopify/ProductVariant/1'' None =
     [Alert ''Shopify client not initialized'']"
  using startCheckout_without_client [of initial "''gid://shopify/ProductVariant/1''" None]
  by (simp add: initial_def)

text \<open>
  C4: with a client handle present, quantity 1 (given, or by default), a session-create
  call that resolves to a session and a line-item-add call that resolves to a session, the
  effects of \<open>startCheckout\<close> are exactly: one session-create call, one line-item-add
  call with the created session's id and the single item of that variant with quantity 1,
  and the navigation to the \<^verbatim>\<open>webUrl\<close> of the session the line-item-add call returned.
\<close>

theorem startCheckout_success:
  assumes "client w = Some c"
    and "qty_arg = None \<or> qty_arg = Some 1"
    and "checkout_create c = Inr checkout"
    and "get checkout ''id'' = Inr cid"
    and "checkout_addLineItems c cid [\<lparr>variantId = vid, quantity = 1\<rparr>] = Inr updated"
    and "get updated ''webUrl'' = Inr url"
  shows "startCheckout w vid qty_arg =
           [CheckoutCreate, Await,
            CheckoutAddLineItems cid [\<lparr>variantId = vid, quantity = 1\<rparr>], Await,
            Navigate url]"
  using assms by (auto simp: startCheckout_def tryCheckout_def)

theorem startCheckout_success_witness:
  "startCheckout (initial\<lparr>client := Some (sample_client sample_catalog)\<rparr>) ''v1'' None =
     [CheckoutCreate, Await,
      CheckoutAddLineItems (JStr ''c1'') [\<lparr>variantId = ''v1'', quantity = 1\<rparr>], Await,
      Navigate (JStr ''https://crush.example/checkouts/c1'')]"
  using startCheckout_success
    [where w = "initial\<lparr>client := Some (sample_client sample_catalog)\<rparr>"
       and c = "sample_client sample_catalog" and qty_arg = None and vid = "''v1''"
       and checkout = "session (JStr ''c1'')" and cid = "JStr ''c1''"
       and updated = "session (JStr ''c1'')"
       and url = "JStr ''https://crush.example/checkouts/c1''"]
  by (simp add: sample_client_def session_def)

text \<open>
  C6: with a client handle present, when the session-create call rejects, or it resolves
  to a session and the line-item-add call rejects, \<open>startCheckout\<close> does not navigate,
  logs the cause of the rejection, raises the alert, and calls nothing a second time.
\<close>

theorem startCheckout_failure:
  assumes "client w = Some c"
    and "items = [\<lparr>variantId = vid, quantity = (case qty_arg of None \<Rightarrow> 1 | Some q \<Rightarrow> q)\<rparr>]"
  shows "(checkout_create c = Inl e \<longrightarrow>
            startCheckout w vid qty_arg =
              [CheckoutCreate, Await, ConsoleError [LogError e],
               Alert ''Could not start checkout. Check console for details.'']) \<and>
         (checkout_create c = Inr checkout \<and> get checkout ''id'' = Inr cid \<and>
          checkout_addLineItems c cid items = Inl e \<longrightarrow>
            startCheckout w vid qty_arg =
              [CheckoutCreate, Await, CheckoutAddLineItems cid items, Await,
               ConsoleError [LogError e],
               Alert ''Could not start checkout. Check console for details.''])"
  using assms by (auto simp: startCheckout_def tryCheckout_def)

theorem startCheckout_failure_witness:
  "startCheckout
     (initial\<lparr>client := Some ((sample_client [])
                 \<lparr>checkout_create := Inl (Thrown (JStr ''network down''))\<rparr>)\<rparr>) ''v1'' None =
     [CheckoutCreate, Await, ConsoleError [LogError (Thrown (JStr ''network down''))],
      Alert ''Could not start checkout. Check console for details.''] \<and>
   startCheckout
     (initial\<lparr>client := Some ((sample_client [])
                 \<lparr>checkout_addLineItems :=
                    (\<lambda>cid items. Inl (Thrown (JStr ''invalid variant'')))\<rparr>)\<rparr>) ''v1'' (Some 2) =
     [CheckoutCreate, Await,
      CheckoutAddLineItems (JStr ''c1'') [\<lparr>variantId = ''v1'', quantity = 2\<rparr>], Await,
      ConsoleError [LogError (Thrown (JStr ''invalid variant''))],
      Alert ''Could not start checkout. Check console for details.'']"
proof -
  let ?c1 = "(sample_client []) \<lparr>checkout_create := Inl (Thrown (JStr ''network down''))\<rparr>"
  let ?c2 = "(sample_client [])
               \<lparr>checkout_addLineItems := (\<lambda>cid items. Inl (Thrown (JStr ''invalid variant'')))\<rparr>"
  have a: "startCheckout (initial\<lparr>client := Some ?c1\<rparr>) ''v1'' None =
             [CheckoutCreate, Await, ConsoleError [LogError (Thrown (JStr ''network down''))],
              Alert ''Could not start checkout. Check console for details.'']"
    using startCheckout_failure
      [where w = "initial\<lparr>client := Some ?c1\<rparr>" and c = ?c1 and qty_arg = None
         and vid = "''v1''" and e = "Thrown (JStr ''network down'')"
         and items = "[\<lparr>variantId = ''v1'', quantity = 1\<rparr>]"]
    by simp
  have b: "startCheckout (initial\<lparr>client := Some ?c2\<rparr>) ''v1'' (Some 2) =
             [CheckoutCreate, Await,
              CheckoutAddLineItems (JStr ''c1'') [\<lparr>variantId = ''v1'', quantity = 2\<rparr>], Await,
              ConsoleError [LogError (Thrown (JStr ''invalid variant''))],
              Alert ''Could not start checkout. Check console for details.'']"
    using startCheckout_failure
      [where w = "initial\<lparr>client := Some ?c2\<rparr>" and c = ?c2 and qty_arg = "Some 2"
         and vid = "''v1''" and e = "Thrown (JStr ''invalid variant'')"
         and items = "[\<lparr>variantId = ''v1'', quantity = 2\<rparr>]"
         and checkout = "session (JStr ''c1'')" and cid = "JStr ''c1''"]
    by (simp add: sample_client_def session_def)
  from a b show ?thesis by blast
qed

section \<open>Properties of the Catalog Bootstrapper\<close>

text \<open>
  C2: when the configuration document arrives and its domain or its access token is empty
  or missing (or falsy in any other way), the bootstrapper ends with the error flag set and
  loading off, having built no client handle and fetched no catalog: the effects are the
  two reads of the configuration and nothing else, and the catalog, the featured list and
  the client handle are as before. The outcome does not depend on which field is missing,
  or on the other field.
\<close>

theorem bootstrap_config_missing:
  assumes "fetch en ''/api/config/shopify'' = Inr (Inr config)"
    and "get config ''domain'' = Inr d"
    and "get config ''storefrontAccessToken'' = Inr t"
    and "\<not> truthy d \<or> \<not> truthy t"
  shows "initializeAndLoad en w =
           (w\<lparr>loading := False, configError := True\<rparr>,
            [Fetch ''/api/config/shopify'', Await, ResponseJson, Await])"
  using assms
  by (auto simp: initializeAndLoad_def tryLoad_def configure_def configMissing_def)

text \<open>
  The end-to-end scenario, with the document the Config Provider serves when both
  variables are unset, and a document with the domain only.
\<close>

theorem bootstrap_config_missing_witness:
  "initializeAndLoad
     (sample_env (body (shopifyConfigHandler Map.empty)) (sample_client sample_catalog))
     initial =
     (initial\<lparr>loading := False, configError := True\<rparr>,
      [Fetch ''/api/config/shopify'', Await, ResponseJson, Await]) \<and>
   initializeAndLoad
     (sample_env (store_config ''crush.myshopify.com'' '''') (sample_client sample_catalog))
     initial =
     (initial\<lparr>loading := False, configError := True\<rparr>,
      [Fetch ''/api/config/shopify'', Await, ResponseJson, Await])"
proof -
  have a: "initializeAndLoad
     (sample_env (body (shopifyConfigHandler Map.empty)) (sample_client sample_catalog))
     initial =
     (initial\<lparr>loading := False, configError := True\<rparr>,
      [Fetch ''/api/config/shopify'', Await, ResponseJson, Await])"
    using bootstrap_config_missing
      [where en = "sample_env (body (shopifyConfigHandler Map.empty))
                     (sample_client sample_catalog)"
         and config = "body (shopifyConfigHandler Map.empty)"
         and d = "JStr ''''" and t = "JStr ''''" and w = initial]
    by (simp add: sample_env_def shopifyConfigHandler_def env_or_empty_def)
  have b: "initializeAndLoad
     (sample_env (store_config ''crush.myshopify.com'' '''') (sample_client sample_catalog))
     initial =
     (initial\<lparr>loading := False, configError := True\<rparr>,
      [Fetch ''/api/config/shopify'', Await, ResponseJson, Await])"
    using bootstrap_config_missing
      [where en = "sample_env (store_config ''crush.myshopify.com'' '''')
                     (sample_client sample_catalog)"
         and config = "store_config ''crush.myshopify.com'' ''''"
         and d = "JStr ''crush.myshopify.com''" and t = "JStr ''''" and w = initial]
    by (simp add: sample_env_def store_config_def)
  from a b show ?thesis by blast
qed

text \<open>
  C8, as the claim states it, fails: a domain with the scheme prefix \<^verbatim>\<open>http://\<close> is
  handed to \<^verbatim>\<open>Client.buildClient\<close> with the prefix still on it.
\<close>

theorem scheme_prefix_counterexample:
  "snd (initializeAndLoad
     (sample_env (store_config ''http://crush.myshopify.com'' ''tok'') (sample_client []))
     initial) =
     [Fetch ''/api/config/shopify'', Await, ResponseJson, Await,
      BuildClient \<lparr>domain = ''http://crush.myshopify.com'', storefrontAccessToken = JStr ''tok'',
                   apiVersion = ''2024-01''\<rparr>,
      ProductFetchAll, Await]"
  by (simp add: initializeAndLoad_def tryLoad_def configure_def configMissing_def
        clientConfig_def loadProducts_def sample_env_def store_config_def sample_client_def)

text \<open>
  C8, amended: for a configuration with a non-empty domain string and an access token, the
  client handle is built with the domain from which the first occurrence of the text
  \<^verbatim>\<open>https://\<close> has been removed: a domain that starts with \<^verbatim>\<open>https://\<close> loses
  that prefix, and a domain in which \<^verbatim>\<open>https://\<close> does not occur, whatever other
  scheme it starts with, is used as it is. (In the second conjunct, \<open>a\<close> is what stands
  before the first occurrence: no occurrence starts inside \<open>a\<close>.)
\<close>

theorem bootstrap_strips_https:
  assumes "fetch en ''/api/config/shopify'' = Inr (Inr config)"
    and "get config ''domain'' = Inr (JStr d)" and "d \<noteq> []"
    and "get config ''storefrontAccessToken'' = Inr t" and "truthy t"
  shows "(\<exists>tr. snd (initializeAndLoad en w) =
            [Fetch ''/api/config/shopify'', Await, ResponseJson, Await,
             BuildClient \<lparr>domain = replace d ''https://'' '''', storefrontAccessToken = t,
                          apiVersion = ''2024-01''\<rparr>] @ tr) \<and>
         (\<forall>a b. d = a @ ''https://'' @ b \<and> \<not> sublist ''https://'' (a @ ''https:/'') \<longrightarrow>
                replace d ''https://'' '''' = a @ b) \<and>
         (\<not> sublist ''https://'' d \<longrightarrow> replace d ''https://'' '''' = d)"
proof -
  have "\<exists>tr. snd (initializeAndLoad en w) =
            [Fetch ''/api/config/shopify'', Await, ResponseJson, Await,
             BuildClient \<lparr>domain = replace d ''https://'' '''', storefrontAccessToken = t,
                          apiVersion = ''2024-01''\<rparr>] @ tr"
    using assms
    by (auto simp: initializeAndLoad_def tryLoad_def configure_def configMissing_def
          clientConfig_def split: sum.splits prod.splits completion.splits)
  moreover have "\<forall>a b. d = a @ ''https://'' @ b \<and> \<not> sublist ''https://'' (a @ ''https:/'') \<longrightarrow>
                   replace d ''https://'' '''' = a @ b"
    using replace_first [of "''https://''" _ _ "''''"] by auto
  moreover have "\<not> sublist ''https://'' d \<longrightarrow> replace d ''https://'' '''' = d"
    using replace_absent by blast
  ultimately show ?thesis by blast
qed

theorem bootstrap_strips_https_witness:
  "replace ''https://crush.myshopify.com'' ''https://'' '''' = ''crush.myshopify.com'' \<and>
   replace ''http://crush.myshopify.com'' ''https://'' '''' = ''http://crush.myshopify.com'' \<and>
   (\<exists>tr. snd (initializeAndLoad
      (sample_env (store_config ''https://crush.myshopify.com'' ''tok'') (sample_client []))
      initial) =
      [Fetch ''/api/config/shopify'', Await, ResponseJson, Await,
       BuildClient \<lparr>domain = ''crush.myshopify.com'', storefrontAccessToken = JStr ''tok'',
                    apiVersion = ''2024-01''\<rparr>] @ tr)"
proof -
  let ?en = "\<lambda>d. sample_env (store_config d ''tok'') (sample_client [])"
  have f: "fetch (?en d) ''/api/config/shopify'' = Inr (Inr (store_config d ''tok''))" for d
    by (simp add: sample_env_def)
  have g: "get (store_config d ''tok'') ''domain'' = Inr (JStr d)" for d
    by (simp add: store_config_def)
  have t: "get (store_config d ''tok'') ''storefrontAccessToken'' = Inr (JStr ''tok'')" for d
    by (simp add: store_config_def)
  have tt: "truthy (JStr ''tok'')"
    by simp
  have first: "\<not> sublist ''https://'' ([] @ ''https:/'')"
    by (simp add: sublist_Cons_right)
  have absent: "\<not> sublist ''https://'' ''http://crush.myshopify.com''"
    by (simp add: sublist_Cons_right)
  have shape: "''https://crush.myshopify.com'' = [] @ ''https://'' @ ''crush.myshopify.com''"
    by simp
  have n1: "''https://crush.myshopify.com'' \<noteq> []" and n2: "''http://crush.myshopify.com'' \<noteq> []"
    by simp_all
  note s = bootstrap_strips_https [OF f g n1 t tt, of initial]
  note h = bootstrap_strips_https [OF f g n2 t tt, of initial]
  from s shape first
  have a: "replace ''https://crush.myshopify.com'' ''https://'' '''' = [] @ ''crush.myshopify.com''"
    by blast
  from h absent
  have b: "replace ''http://crush.myshopify.com'' ''https://'' '''' = ''http://crush.myshopify.com''"
    by blast
  from s a have c: "\<exists>tr. snd (initializeAndLoad (?en ''https://crush.myshopify.com'') initial) =
      [Fetch ''/api/config/shopify'', Await, ResponseJson, Await,
       BuildClient \<lparr>domain = ''crush.myshopify.com'', storefrontAccessToken = JStr ''tok'',
                    apiVersion = ''2024-01''\<rparr>] @ tr"
    by simp
  from a b c show ?thesis by simp
qed

text \<open>
  C1: when the configuration is complete, the client handle is built and the catalog fetch
  resolves to \<open>N\<close> records that are all mapped, then the catalog is the list of the \<open>N\<close>
  mapped products in the order the platform returned them, the featured list is its first
  \<open>min N 3\<close> products in that order, and loading is off; and when \<open>N = 0\<close> the page
  shows an empty featured grid and, in the shop grid, the "no products" indicator.
\<close>

theorem bootstrap_success_lists:
  assumes "fetch en ''/api/config/shopify'' = Inr (Inr config)"
    and "get config ''domain'' = Inr (JStr d)" and "d \<noteq> []"
    and "get config ''storefrontAccessToken'' = Inr t" and "truthy t"
    and "buildClient en \<lparr>domain = replace d ''https://'' '''', storefrontAccessToken = t,
                          apiVersion = ''2024-01''\<rparr> = Inr c"
    and "product_fetchAll c = Inr (JArr raws)"
    and "traverse mapProduct raws = Inr mapped"
    and "\<not> configError w"
  shows "fst (initializeAndLoad en w) =
           w\<lparr>products := mapped, featured := take (min (length raws) 3) mapped,
             loading := False, client := Some c\<rparr> \<and>
         length mapped = length raws \<and>
         (\<forall>i<length raws. mapProduct (raws ! i) = Inr (mapped ! i)) \<and>
         (raws = [] \<longrightarrow>
            render (fst (initializeAndLoad en w)) = Inr (StorePage [] [NoProducts]))"
proof -
  have len: "length mapped = length raws"
    and nth: "\<forall>i<length raws. mapProduct (raws ! i) = Inr (mapped ! i)"
    using traverse_Inr [OF assms(8)] by simp_all
  have run: "fst (initializeAndLoad en w) =
               w\<lparr>products := mapped, featured := take 3 mapped, loading := False,
                 client := Some c\<rparr>"
    using assms
    by (simp add: initializeAndLoad_def tryLoad_def configure_def configMissing_def
          clientConfig_def loadProducts_def)
  have tk: "take (min (length raws) 3) mapped = take 3 mapped"
    using len by (simp add: min_def)
  have empty: "raws = [] \<longrightarrow>
                 render (fst (initializeAndLoad en w)) = Inr (StorePage [] [NoProducts])"
  proof
    assume "raws = []"
    with len have "mapped = []" by simp
    with run assms(9)
    show "render (fst (initializeAndLoad en w)) = Inr (StorePage [] [NoProducts])"
      by (simp add: render_def)
  qed
  from run tk len nth empty show ?thesis by simp
qed

theorem bootstrap_success_lists_witness:
  "fst (initializeAndLoad
     (sample_env (store_config ''https://crush.myshopify.com'' ''tok'')
        (sample_client sample_catalog)) initial) =
     initial\<lparr>products := sample_products, featured := take 3 sample_products,
       loading := False, client := Some (sample_client sample_catalog)\<rparr> \<and>
   length sample_products = 4 \<and>
   render (fst (initializeAndLoad
     (sample_env (store_config ''https://crush.myshopify.com'' ''tok'')
        (sample_client [])) initial)) = Inr (StorePage [] [NoProducts])"
proof -
  let ?config = "store_config ''https://crush.myshopify.com'' ''tok''"
  let ?args = "\<lparr>domain = replace ''https://crush.myshopify.com'' ''https://'' [],
                storefrontAccessToken = JStr ''tok'', apiVersion = ''2024-01''\<rparr>"
  have f: "fetch (sample_env ?config c) ''/api/config/shopify'' = Inr (Inr ?config)" for c
    by (simp add: sample_env_def)
  have d: "get ?config ''domain'' = Inr (JStr ''https://crush.myshopify.com'')"
    and dn: "''https://crush.myshopify.com'' \<noteq> []"
    and t: "get ?config ''storefrontAccessToken'' = Inr (JStr ''tok'')"
    and tt: "truthy (JStr ''tok'')"
    by (simp_all add: store_config_def)
  have bc: "buildClient (sample_env ?config c) ?args = Inr c" for c
    by (simp add: sample_env_def)
  have fa: "product_fetchAll (sample_client raws) = Inr (JArr raws)" for raws
    by (simp add: sample_client_def)
  have clear: "\<not> configError initial"
    by (simp add: initial_def)
  have none: "traverse mapProduct [] = Inr []"
    by simp
  have len: "length sample_catalog = 4"
    by (simp add: sample_catalog_def)
  from bootstrap_success_lists [OF f d dn t tt bc fa sample_mapped clear]
  have a: "fst (initializeAndLoad (sample_env ?config (sample_client sample_catalog)) initial) =
             initial\<lparr>products := sample_products, featured := take 3 sample_products,
               loading := False, client := Some (sample_client sample_catalog)\<rparr> \<and>
           length sample_products = 4"
    by (simp add: len)
  from bootstrap_success_lists [OF f d dn t tt bc fa none clear]
  have b: "render (fst (initializeAndLoad (sample_env ?config (sample_client [])) initial)) =
             Inr (StorePage [] [NoProducts])"
    by blast
  from a b show ?thesis by blast
qed

text \<open>
  C10: a bootstrap run that starts with the error flag clear and ends with it set, for
  whatever reason (a missing field, a rejected fetch, a record that cannot be mapped),
  leaves the catalog and the featured list as they were: empty, from the initial state.
\<close>

theorem bootstrap_error_keeps_lists:
  assumes "\<not> configError w"
    and "configError (fst (initializeAndLoad en w))"
  shows "products (fst (initializeAndLoad en w)) = products w \<and>
         featured (fst (initializeAndLoad en w)) = featured w"
  using assms
  by (auto simp: initializeAndLoad_def tryLoad_def configure_def loadProducts_def
           split: sum.splits prod.splits completion.splits bool.splits)

theorem bootstrap_error_keeps_lists_witness:
  "configError (fst (initializeAndLoad
     (sample_env (store_config ''crush.myshopify.com'' ''tok'')
        (sample_client [raw_product ''p1'' [] [], JNull])) initial)) \<and>
   products (fst (initializeAndLoad
     (sample_env (store_config ''crush.myshopify.com'' ''tok'')
        (sample_client [raw_product ''p1'' [] [], JNull])) initial)) = [] \<and>
   featured (fst (initializeAndLoad
     (sample_env (store_config ''crush.myshopify.com'' ''tok'')
        (sample_client [raw_product ''p1'' [] [], JNull])) initial)) = []"
proof -
  have clear: "\<not> configError initial"
    by (simp add: initial_def)
  from bootstrap_error_keeps_lists [OF clear sample_broken_run] sample_broken_run
  show ?thesis by (simp add: initial_def)
qed

end
